theory Spec2Isabelle
  imports Main "HOL-Library.AList" "HOL-Library.Sublist"
begin

section \<open>Values, exceptions and the database as seen from app.py\<close>

text \<open>
  The gateway of \<^verbatim>\<open>app.py\<close> is three request handlers around a PostgreSQL
  connection. The Python values that reach a caller are modelled by \<open>pyval\<close>: a dict is
  an association list in insertion order, a row of the raw driver is a tuple. Floating
  point values are left out. What the handlers write to the log is left out as well: it
  reaches neither the caller nor the database.
\<close>

datatype pyval =
    PNone
  | PBool bool
  | PInt int
  | PStr string
  | PList "pyval list"
  | PTuple "pyval list"
  | PDict "(string \<times> pyval) list"

text \<open>
  An exception carries its class, as far as the \<^verbatim>\<open>except\<close> clauses of the file tell
  classes apart, and the text \<^verbatim>\<open>str(e)\<close>. \<open>BaseExceptionOnly\<close> stands for the
  classes outside \<^verbatim>\<open>Exception\<close> (KeyboardInterrupt, SystemExit, CancelledError):
  \<^verbatim>\<open>except Exception\<close> lets them pass, a bare \<^verbatim>\<open>except:\<close> does not.
\<close>

datatype exc_class = SQLAlchemyError | PsycopgError | OtherException | BaseExceptionOnly

datatype exc = Exc exc_class string

fun cls :: "exc \<Rightarrow> exc_class" where
  "cls (Exc c m) = c"

fun str :: "exc \<Rightarrow> string" where
  "str (Exc c m) = m"

definition is_Exception :: "exc \<Rightarrow> bool" where
  "is_Exception e = (cls e \<noteq> BaseExceptionOnly)"

text \<open>
  The calls the handlers make on the connection. \<open>ExecDirective\<close> is the statement the
  handler itself issues (\<^verbatim>\<open>exec_driver_sql\<close>, \<^verbatim>\<open>connection.execute\<close>),
  \<open>ExecQuery\<close> the caller's statement (\<^verbatim>\<open>connection.execute(text(sqlquery))\<close>,
  \<^verbatim>\<open>cursor.execute(sqlquery)\<close>), \<open>Keys\<close> the read of the column names
  (\<^verbatim>\<open>result.keys()\<close>, \<^verbatim>\<open>cursor.description\<close>), \<open>SetSession\<close> the
  \<^verbatim>\<open>set_session\<close> call of the pool's connect hook. \<open>Close\<close> is the exit of the
  \<^verbatim>\<open>with\<close> block that holds the connection. Opening and closing a cursor is local
  to the client and is no call of its own.
\<close>

datatype db_op =
    Connect
  | SetSession
  | Begin
  | ExecDirective string
  | ExecQuery pyval
  | Keys
  | FetchAll
  | Commit
  | Rollback
  | Close

text \<open>
  The database and its driver are the environment of a request: \<open>fails\<close> says which
  call raises what to the handler (a failure that the driver absorbs on its own, as
  psycopg does with an OperationalError of the rollback at the exit of a transaction
  block, is no raise), \<open>columns_of\<close> and \<open>rows_of\<close> are the result set of a statement,
  \<open>new_physical\<close> says whether the pool has to open a physical connection for this
  checkout (only then the connect hook runs).
\<close>

record db =
  fails :: "db_op \<Rightarrow> exc option"
  new_physical :: bool
  columns_of :: "pyval \<Rightarrow> string list"
  rows_of :: "pyval \<Rightarrow> pyval list list"

text \<open>A trace lists the calls made, in order, each with the exception it raised, if any.\<close>

type_synonym event = "db_op \<times> exc option"

type_synonym 'a prog = "event list \<Rightarrow> (exc + 'a) \<times> event list"

definition ret :: "'a \<Rightarrow> 'a prog" where
  "ret x tr = (Inr x, tr)"

definition call :: "db \<Rightarrow> db_op \<Rightarrow> unit prog" where
  "call d op tr =
     ((case fails d op of Some e \<Rightarrow> Inl e | None \<Rightarrow> Inr ()), tr @ [(op, fails d op)])"

definition seq :: "'a prog \<Rightarrow> ('a \<Rightarrow> 'b prog) \<Rightarrow> 'b prog" where
  "seq m f tr = (case m tr of (Inl e, tr') \<Rightarrow> (Inl e, tr') | (Inr x, tr') \<Rightarrow> f x tr')"

text \<open>
  \<^verbatim>\<open>try: m  except: h; raise\<close>: the handler runs on every exception, and the exception is
  raised again unless the handler raises one of its own.
\<close>

definition except_reraise :: "'a prog \<Rightarrow> unit prog \<Rightarrow> 'a prog" where
  "except_reraise m h tr =
     (case m tr of
        (Inl e, tr') \<Rightarrow> (case h tr' of (Inl e', tr'') \<Rightarrow> (Inl e', tr'') | (Inr u, tr'') \<Rightarrow> (Inl e, tr''))
      | (Inr x, tr') \<Rightarrow> (Inr x, tr'))"

text \<open>
  A \<^verbatim>\<open>with\<close> block: \<open>on_ok\<close> runs when the body returns, \<open>on_exc\<close> when it raises;
  an exception of the exit itself replaces the outcome of the body.
\<close>

definition with_exit :: "'a prog \<Rightarrow> unit prog \<Rightarrow> unit prog \<Rightarrow> 'a prog" where
  "with_exit m on_ok on_exc tr =
     (case m tr of
        (Inl e, tr') \<Rightarrow> (case on_exc tr' of (Inl e', tr'') \<Rightarrow> (Inl e', tr'') | (Inr u, tr'') \<Rightarrow> (Inl e, tr''))
      | (Inr x, tr') \<Rightarrow> (case on_ok tr' of (Inl e', tr'') \<Rightarrow> (Inl e', tr'') | (Inr u, tr'') \<Rightarrow> (Inr x, tr'')))"

section \<open>Configuration (lines 27 to 34)\<close>

text \<open>
  \<^verbatim>\<open>os.getenv\<close> returns None for an unset variable. The module raises ValueError, and the
  process never serves a request, when either variable is unset or empty.
\<close>

record config =
  DATABASE_URL :: "string option"
  REX_API_KEY :: "string option"

definition py_not :: "string option \<Rightarrow> bool" where
  "py_not v = (case v of None \<Rightarrow> True | Some s \<Rightarrow> s = [])"

definition startup :: "string option \<Rightarrow> string option \<Rightarrow> string + config" where
  "startup database_url rex_api_key =
     (if py_not database_url then Inl ''DATABASE_URL environment variable is required''
      else if py_not rex_api_key then Inl ''REX_API_KEY environment variable is required''
      else Inr \<lparr>DATABASE_URL = database_url, REX_API_KEY = rex_api_key\<rparr>)"

definition secret :: "config \<Rightarrow> pyval" where
  "secret cfg = (case REX_API_KEY cfg of None \<Rightarrow> PNone | Some s \<Rightarrow> PStr s)"

section \<open>Responses\<close>

text \<open>
  What the caller sees: a status with a JSON body, or, for an exception that no handler
  catches, the exception leaving the handler. FastAPI renders
  \<^verbatim>\<open>HTTPException(status_code, detail)\<close> as that status with the body
  \<^verbatim>\<open>{"detail": detail}\<close>.
\<close>

datatype response = Resp nat pyval | Uncaught exc

definition HTTPException :: "nat \<Rightarrow> string \<Rightarrow> response" where
  "HTTPException status_code detail = Resp status_code (PDict [(''detail'', PStr detail)])"

definition custom_rate_limit_exceeded_handler :: response where
  "custom_rate_limit_exceeded_handler =
     Resp 429 (PDict [(''detail'',
       PStr ''Rate limit exceeded. Please try again later or contact your administrator.'')])"

text \<open>
  \<^verbatim>\<open>@limiter.limit(RATE_LIMIT)\<close> wraps a handler: the limiter is asked first, and when
  the quota of the client's address is used up it raises RateLimitExceeded, which the
  handler above answers; the wrapped function is not entered. The limiter's verdict for
  the request is the parameter \<open>exceeded\<close>.
\<close>

definition limiter_limit :: "bool \<Rightarrow> response \<times> event list \<Rightarrow> response \<times> event list" where
  "limiter_limit exceeded handler =
     (if exceeded then (custom_rate_limit_exceeded_handler, []) else handler)"

section \<open>Statement classification and row normalisation\<close>

text \<open>
  \<^verbatim>\<open>sqlquery.strip().lower().startswith('select')\<close>, on texts whose characters are
  code points below 256: \<^verbatim>\<open>str.isspace\<close> holds of 9 to 13, 28 to 32, 133 and 160 there,
  and \<^verbatim>\<open>str.lower\<close> moves A to Z and the capital letters 192 to 222 (without the
  multiplication sign 215) up by 32.
\<close>

definition py_isspace :: "char \<Rightarrow> bool" where
  "py_isspace c =
     (let n = (of_char c :: nat)
      in (9 \<le> n \<and> n \<le> 13) \<or> (28 \<le> n \<and> n \<le> 32) \<or> n = 133 \<or> n = 160)"

definition strip :: "string \<Rightarrow> string" where
  "strip s = rev (dropWhile py_isspace (rev (dropWhile py_isspace s)))"

definition lower_char :: "char \<Rightarrow> char" where
  "lower_char c =
     (let n = (of_char c :: nat)
      in if (65 \<le> n \<and> n \<le> 90) \<or> (192 \<le> n \<and> n \<le> 222 \<and> n \<noteq> 215)
         then char_of (n + 32) else c)"

definition lower :: "string \<Rightarrow> string" where
  "lower s = map lower_char s"

definition startswith :: "string \<Rightarrow> string \<Rightarrow> bool" where
  "startswith s p = (take (length p) s = p)"

definition is_select :: "string \<Rightarrow> bool" where
  "is_select sqlquery = startswith (lower (strip sqlquery)) ''select''"

text \<open>
  \<^verbatim>\<open>dict(zip(columns, row))\<close>: \<open>zip\<close> stops at the shorter sequence; a key that comes
  again keeps its place in the dict and takes the later value.
\<close>

definition dict :: "(string \<times> pyval) list \<Rightarrow> (string \<times> pyval) list" where
  "dict kvs = foldl (\<lambda>d kv. AList.update (fst kv) (snd kv) d) [] kvs"

definition row_dicts :: "string list \<Rightarrow> pyval list list \<Rightarrow> pyval" where
  "row_dicts columns rows = PList (map (\<lambda>row. PDict (dict (zip columns row))) rows)"

section \<open>The pool's connect hook (lines 82 to 89)\<close>

datatype log_line = Debug string | Warning string

text \<open>
  The argument is what \<^verbatim>\<open>dbapi_connection.set_session(readonly=True, autocommit=False)\<close>
  raised, if anything. The result is how the hook ends and what it logged.
\<close>

definition set_session_readonly :: "exc option \<Rightarrow> (exc + unit) \<times> log_line list" where
  "set_session_readonly set_session =
     (case set_session of
        None \<Rightarrow> (Inr (), [Debug ''SQLAlchemy DBAPI session set to readonly''])
      | Some e \<Rightarrow>
          if is_Exception e
          then (Inr (), [Warning (''Failed to set SQLAlchemy session to readonly: '' @ str e)])
          else (Inl e, []))"

text \<open>
  \<^verbatim>\<open>engine.connect()\<close>: the pool hands out a connection; when it has to open a
  physical one, the hook runs on it before the connection is handed out.
\<close>

definition connect_hook :: "db \<Rightarrow> unit prog" where
  "connect_hook d tr =
     (fst (set_session_readonly (fails d SetSession)), tr @ [(SetSession, fails d SetSession)])"

definition engine_connect :: "db \<Rightarrow> unit prog" where
  "engine_connect d =
     seq (call d Connect) (\<lambda>_. if new_physical d then connect_hook d else ret ())"

section \<open>The pooled endpoint (lines 91 to 124)\<close>

definition read_only_directive :: string where
  "read_only_directive = ''SET TRANSACTION READ ONLY''"

definition success_ack :: pyval where
  "success_ack =
     PDict [(''status'', PStr ''success''), (''message'', PStr ''Query executed successfully'')]"

text \<open>Lines 103 to 115, the body of the inner \<^verbatim>\<open>try\<close>.\<close>

definition alchemy_try :: "db \<Rightarrow> string \<Rightarrow> pyval prog" where
  "alchemy_try d sqlquery =
     seq (call d (ExecDirective read_only_directive)) (\<lambda>_.
     seq (call d (ExecQuery (PStr sqlquery))) (\<lambda>_.
       if is_select sqlquery then
         seq (call d Keys) (\<lambda>_.
         seq (call d FetchAll) (\<lambda>_.
         seq (call d Commit) (\<lambda>_.
         ret (row_dicts (columns_of d (PStr sqlquery)) (rows_of d (PStr sqlquery))))))
       else
         seq (call d Commit) (\<lambda>_. ret success_ack)))"

text \<open>Lines 100 to 118: the connection, \<^verbatim>\<open>connection.begin()\<close>, and the rollback.\<close>

definition alchemy_connection :: "db \<Rightarrow> string \<Rightarrow> pyval prog" where
  "alchemy_connection d sqlquery =
     seq (engine_connect d) (\<lambda>_.
       with_exit
         (seq (call d Begin) (\<lambda>_. except_reraise (alchemy_try d sqlquery) (call d Rollback)))
         (call d Close) (call d Close))"

text \<open>Lines 119 to 124.\<close>

definition alchemy_except :: "exc \<Rightarrow> response" where
  "alchemy_except e =
     (if cls e = SQLAlchemyError then HTTPException 500 (''Database error: '' @ str e)
      else if is_Exception e then HTTPException 500 (''Unexpected error: '' @ str e)
      else Uncaught e)"

definition sqlquery_alchemy_fn :: "config \<Rightarrow> db \<Rightarrow> string \<Rightarrow> string \<Rightarrow> response \<times> event list" where
  "sqlquery_alchemy_fn cfg d sqlquery api_key =
     (if PStr api_key \<noteq> secret cfg then (HTTPException 401 ''Invalid API key'', [])
      else case alchemy_connection d sqlquery [] of
             (Inr v, tr) \<Rightarrow> (Resp 200 v, tr)
           | (Inl e, tr) \<Rightarrow> (alchemy_except e, tr))"

definition sqlquery_alchemy ::
  "config \<Rightarrow> bool \<Rightarrow> db \<Rightarrow> string \<Rightarrow> string \<Rightarrow> response \<times> event list" where
  "sqlquery_alchemy cfg exceeded d sqlquery api_key =
     limiter_limit exceeded (sqlquery_alchemy_fn cfg d sqlquery api_key)"

section \<open>The direct endpoint (lines 126 to 159)\<close>

text \<open>
  \<^verbatim>\<open>with connection.transaction()\<close> commits when its body returns and rolls back when
  it raises. The exit of \<^verbatim>\<open>with psycopg.connect(...)\<close>, which ends whatever
  transaction is still open and closes the connection, is the one call \<open>Close\<close>.
  \<^verbatim>\<open>cursor.fetchall()\<close> of the raw driver gives the rows as tuples, and the handler
  returns them as they are.
\<close>

definition direct_cursor :: "db \<Rightarrow> string \<Rightarrow> pyval prog" where
  "direct_cursor d sqlquery =
     seq (call d (ExecQuery (PStr sqlquery))) (\<lambda>_.
       if is_select sqlquery then
         seq (call d FetchAll) (\<lambda>_. ret (PList (map PTuple (rows_of d (PStr sqlquery)))))
       else ret success_ack)"

definition direct_connection :: "db \<Rightarrow> string \<Rightarrow> pyval prog" where
  "direct_connection d sqlquery =
     seq (call d Connect) (\<lambda>_.
       with_exit
         (seq (call d Begin) (\<lambda>_.
            with_exit
              (seq (call d (ExecDirective read_only_directive)) (\<lambda>_. direct_cursor d sqlquery))
              (call d Commit) (call d Rollback)))
         (call d Close) (call d Close))"

definition direct_except :: "exc \<Rightarrow> response" where
  "direct_except e =
     (if cls e = PsycopgError then HTTPException 500 (''Database error: '' @ str e)
      else if is_Exception e then HTTPException 500 (''Unexpected error: '' @ str e)
      else Uncaught e)"

definition sqlquery_direct_fn :: "config \<Rightarrow> db \<Rightarrow> string \<Rightarrow> string \<Rightarrow> response \<times> event list" where
  "sqlquery_direct_fn cfg d sqlquery api_key =
     (if PStr api_key \<noteq> secret cfg then (HTTPException 401 ''Invalid API key'', [])
      else case direct_connection d sqlquery [] of
             (Inr v, tr) \<Rightarrow> (Resp 200 v, tr)
           | (Inl e, tr) \<Rightarrow> (direct_except e, tr))"

definition sqlquery_direct ::
  "config \<Rightarrow> bool \<Rightarrow> db \<Rightarrow> string \<Rightarrow> string \<Rightarrow> response \<times> event list" where
  "sqlquery_direct cfg exceeded d sqlquery api_key =
     limiter_limit exceeded (sqlquery_direct_fn cfg d sqlquery api_key)"

section \<open>The JSON-body endpoint (lines 164 to 192)\<close>

text \<open>
  The payload is any JSON object, so \<^verbatim>\<open>payload.get\<close> gives None for a missing field
  and the fields need not be strings. \<^verbatim>\<open>sqlquery.strip()\<close> raises AttributeError on
  anything but a string.
\<close>

definition payload_get :: "(string \<times> pyval) list \<Rightarrow> string \<Rightarrow> pyval" where
  "payload_get payload k = (case map_of payload k of None \<Rightarrow> PNone | Some v \<Rightarrow> v)"

fun type_name :: "pyval \<Rightarrow> string" where
  "type_name PNone = ''NoneType''"
| "type_name (PBool b) = ''bool''"
| "type_name (PInt i) = ''int''"
| "type_name (PStr s) = ''str''"
| "type_name (PList xs) = ''list''"
| "type_name (PTuple xs) = ''tuple''"
| "type_name (PDict kvs) = ''dict''"

definition no_strip :: "pyval \<Rightarrow> exc" where
  "no_strip v =
     Exc OtherException
       ([CHR 0x27] @ type_name v @ [CHR 0x27] @ '' object has no attribute ''
        @ [CHR 0x27] @ ''strip'' @ [CHR 0x27])"

definition select_test :: "pyval \<Rightarrow> bool prog" where
  "select_test sqlquery tr =
     (case sqlquery of PStr s \<Rightarrow> (Inr (is_select s), tr) | _ \<Rightarrow> (Inl (no_strip sqlquery), tr))"

definition salesforce_cursor :: "db \<Rightarrow> pyval \<Rightarrow> pyval prog" where
  "salesforce_cursor d sqlquery =
     seq (call d (ExecQuery sqlquery)) (\<lambda>_.
     seq (select_test sqlquery) (\<lambda>sel.
       if sel then
         seq (call d Keys) (\<lambda>_.
         seq (call d FetchAll) (\<lambda>_.
         ret (PDict [(''status'', PStr ''success''),
                     (''data'', row_dicts (columns_of d sqlquery) (rows_of d sqlquery))])))
       else
         ret (PDict [(''status'', PStr ''success''), (''message'', PStr ''Non-select executed'')])))"

definition salesforce_connection :: "db \<Rightarrow> pyval \<Rightarrow> pyval prog" where
  "salesforce_connection d sqlquery =
     seq (call d Connect) (\<lambda>_.
       with_exit
         (seq (call d Begin) (\<lambda>_.
            with_exit
              (seq (call d (ExecDirective read_only_directive)) (\<lambda>_. salesforce_cursor d sqlquery))
              (call d Commit) (call d Rollback)))
         (call d Close) (call d Close))"

definition salesforce_except :: "exc \<Rightarrow> response" where
  "salesforce_except e = (if is_Exception e then HTTPException 500 (str e) else Uncaught e)"

definition query_salesforce_data ::
  "config \<Rightarrow> db \<Rightarrow> (string \<times> pyval) list \<Rightarrow> response \<times> event list" where
  "query_salesforce_data cfg d payload =
     (let sqlquery = payload_get payload ''sqlquery'';
          api_key = payload_get payload ''api_key''
      in if api_key \<noteq> secret cfg then (HTTPException 401 ''Invalid API key'', [])
         else case salesforce_connection d sqlquery [] of
                (Inr v, tr) \<Rightarrow> (Resp 200 v, tr)
              | (Inl e, tr) \<Rightarrow> (salesforce_except e, tr))"

section \<open>The routes\<close>

definition health_check :: "response \<times> event list" where
  "health_check = (Resp 200 (PDict [(''status'', PStr ''healthy'')]), [])"

datatype request =
    GetRoot
  | GetSqlqueryAlchemy string string
  | GetSqlqueryDirect string string
  | PostQuerySalesforceData "(string \<times> pyval) list"

text \<open>
  \<open>exceeded\<close> is the verdict of the rate limiter on the request's address at the time
  of the request: only the two decorated routes ask for it.
\<close>

definition app :: "config \<Rightarrow> bool \<Rightarrow> db \<Rightarrow> request \<Rightarrow> response \<times> event list" where
  "app cfg exceeded d r =
     (case r of
        GetRoot \<Rightarrow> health_check
      | GetSqlqueryAlchemy sqlquery api_key \<Rightarrow> sqlquery_alchemy cfg exceeded d sqlquery api_key
      | GetSqlqueryDirect sqlquery api_key \<Rightarrow> sqlquery_direct cfg exceeded d sqlquery api_key
      | PostQuerySalesforceData payload \<Rightarrow> query_salesforce_data cfg d payload)"

section \<open>Readings of a trace, and sample environments\<close>


fun status_of :: "response \<Rightarrow> nat option" where
  "status_of (Resp status_code body) = Some status_code"
| "status_of (Uncaught e) = None"

text \<open>A configuration with the secret \<open>k\<close>, and databases for the examples.\<close>

definition cfg0 :: config where
  "cfg0 = \<lparr>DATABASE_URL = Some ''postgresql://u:p@h:5432/db'', REX_API_KEY = Some ''k''\<rparr>"

definition db_ok :: db where
  "db_ok = \<lparr>fails = (\<lambda>op. None), new_physical = True,
            columns_of = (\<lambda>q. [''x'']), rows_of = (\<lambda>q. [[PInt 1]])\<rparr>"

definition db_dup :: db where
  "db_dup = \<lparr>fails = (\<lambda>op. None), new_physical = True,
             columns_of = (\<lambda>q. [''x'', ''x'']), rows_of = (\<lambda>q. [[PInt 1, PInt 2]])\<rparr>"

definition db_failing :: "db_op \<Rightarrow> exc \<Rightarrow> db" where
  "db_failing op e =
     \<lparr>fails = (\<lambda>op'. if op' = op then Some e else None), new_physical = True,
      columns_of = (\<lambda>q. [''x'']), rows_of = (\<lambda>q. [[PInt 1]])\<rparr>"

text \<open>
  The exception that leaves a block whose clean-up call may raise one of its own: an
  exception raised by the later call replaces the earlier one.
\<close>

definition superseded_by :: "exc \<Rightarrow> exc option \<Rightarrow> exc" where
  "superseded_by e later = (case later of None \<Rightarrow> e | Some e' \<Rightarrow> e')"


definition payload0 :: "(string \<times> pyval) list" where
  "payload0 = [(''sqlquery'', PStr ''select 1 as x''), (''api_key'', PStr ''k'')]"

section \<open>What a request is expected to do on the connection\<close>

text \<open>
  The vocabulary of the statements below, route by route. A request is admitted when
  the limiter lets it pass (on the two decorated routes) and its key is the secret; the
  health check never goes to the database.
\<close>

fun admitted :: "config \<Rightarrow> bool \<Rightarrow> request \<Rightarrow> bool" where
  "admitted cfg exceeded GetRoot = False"
| "admitted cfg exceeded (GetSqlqueryAlchemy sqlquery api_key) =
     (\<not> exceeded \<and> PStr api_key = secret cfg)"
| "admitted cfg exceeded (GetSqlqueryDirect sqlquery api_key) =
     (\<not> exceeded \<and> PStr api_key = secret cfg)"
| "admitted cfg exceeded (PostQuerySalesforceData payload) =
     (payload_get payload ''api_key'' = secret cfg)"











section \<open>Auxiliary facts\<close>

lemmas prog_defs = ret_def call_def seq_def except_reraise_def with_exit_def

lemma is_select_example: "is_select ''select 1 as x''"
  by (simp add: is_select_def startswith_def lower_def strip_def py_isspace_def lower_char_def)

subsection \<open>Running the handlers' programs\<close>

lemma seq_call:
  "seq (call d op) f tr =
     (case fails d op of
        Some e \<Rightarrow> (Inl e, tr @ [(op, Some e)])
      | None \<Rightarrow> f () (tr @ [(op, None)]))"
  by (simp add: seq_def call_def split: option.splits)

lemma seq_assoc: "seq (seq m f) g = seq m (\<lambda>x. seq (f x) g)"
  by (rule ext) (simp add: seq_def split: prod.splits sum.splits)

lemma seq_ret: "seq (ret x) f tr = f x tr"
  by (simp add: seq_def ret_def)

lemma seq_if: "seq (if b then m else m') f = (if b then seq m f else seq m' f)"
  by simp

lemma with_exit_call:
  "with_exit m (call d c1) (call d c2) tr =
     (case m tr of
        (Inl e, tr') \<Rightarrow> (Inl (superseded_by e (fails d c2)), tr' @ [(c2, fails d c2)])
      | (Inr x, tr') \<Rightarrow>
          ((case fails d c1 of Some e' \<Rightarrow> Inl e' | None \<Rightarrow> Inr x), tr' @ [(c1, fails d c1)]))"
  by (simp add: with_exit_def call_def superseded_by_def
      split: prod.splits sum.splits option.splits)

lemma except_reraise_call:
  "except_reraise m (call d c) tr =
     (case m tr of
        (Inl e, tr') \<Rightarrow> (Inl (superseded_by e (fails d c)), tr' @ [(c, fails d c)])
      | (Inr x, tr') \<Rightarrow> (Inr x, tr'))"
  by (simp add: except_reraise_def call_def superseded_by_def
      split: prod.splits sum.splits option.splits)

lemma seq_connect_hook:
  "seq (connect_hook d) f tr =
     (case fails d SetSession of
        None \<Rightarrow> f () (tr @ [(SetSession, None)])
      | Some e \<Rightarrow>
          if is_Exception e then f () (tr @ [(SetSession, Some e)])
          else (Inl e, tr @ [(SetSession, Some e)]))"
  by (simp add: seq_def connect_hook_def set_session_readonly_def split: option.splits)

lemma seq_select_test:
  "seq (select_test v) f tr =
     (case v of PStr s \<Rightarrow> f (is_select s) tr | _ \<Rightarrow> (Inl (no_strip v), tr))"
  by (simp add: seq_def select_test_def split: pyval.splits)

lemmas run_simps = seq_assoc seq_call seq_ret seq_if seq_connect_hook seq_select_test
  with_exit_call except_reraise_call ret_def

subsection \<open>A request that the database serves without failure\<close>

lemma is_select_iff: "is_select q \<longleftrightarrow> (\<exists>rest. lower (strip q) = ''select'' @ rest)"
proof
  assume "is_select q"
  then have "take (length ''select'') (lower (strip q)) = ''select''"
    unfolding is_select_def startswith_def .
  then have "lower (strip q) = ''select'' @ drop (length ''select'') (lower (strip q))"
    by (metis append_take_drop_id)
  then show "\<exists>rest. lower (strip q) = ''select'' @ rest" ..
next
  assume "\<exists>rest. lower (strip q) = ''select'' @ rest"
  then obtain rest where "lower (strip q) = ''select'' @ rest" ..
  then have "take (length ''select'') (lower (strip q)) = ''select''"
    by simp
  then show "is_select q"
    unfolding is_select_def startswith_def .
qed

lemma alchemy_success:
  assumes "\<forall>op. fails d op = None"
  shows "alchemy_connection d q [] =
     (Inr (if is_select q then row_dicts (columns_of d (PStr q)) (rows_of d (PStr q))
           else success_ack),
      [(Connect, None)] @ (if new_physical d then [(SetSession, None)] else []) @
      [(Begin, None), (ExecDirective read_only_directive, None), (ExecQuery (PStr q), None)] @
      (if is_select q then [(Keys, None), (FetchAll, None)] else []) @
      [(Commit, None), (Close, None)])"
  using assms
  by (simp add: alchemy_connection_def engine_connect_def alchemy_try_def run_simps)

lemma direct_success:
  assumes "\<forall>op. fails d op = None"
  shows "direct_connection d q [] =
     (Inr (if is_select q then PList (map PTuple (rows_of d (PStr q))) else success_ack),
      [(Connect, None), (Begin, None), (ExecDirective read_only_directive, None),
       (ExecQuery (PStr q), None)] @
      (if is_select q then [(FetchAll, None)] else []) @
      [(Commit, None), (Close, None)])"
  using assms
  by (simp add: direct_connection_def direct_cursor_def run_simps)

lemma salesforce_success:
  assumes "\<forall>op. fails d op = None"
  shows "salesforce_connection d (PStr q) [] =
     (Inr (if is_select q
           then PDict [(''status'', PStr ''success''),
                       (''data'', row_dicts (columns_of d (PStr q)) (rows_of d (PStr q)))]
           else PDict [(''status'', PStr ''success''), (''message'', PStr ''Non-select executed'')]),
      [(Connect, None), (Begin, None), (ExecDirective read_only_directive, None),
       (ExecQuery (PStr q), None)] @
      (if is_select q then [(Keys, None), (FetchAll, None)] else []) @
      [(Commit, None), (Close, None)])"
  using assms
  by (simp add: salesforce_connection_def salesforce_cursor_def run_simps)

lemma is_select_padded: "is_select ''  SeLeCt 1 as x ''"
  by code_simp

lemma not_select_with: "\<not> is_select ''with t as (select 1) select * from t''"
  by (simp add: is_select_def startswith_def lower_def strip_def py_isspace_def lower_char_def)

subsection \<open>The dict of a zipped row\<close>

lemma foldl_update_map_of:
  "map_of (foldl (\<lambda>d kv. AList.update (fst kv) (snd kv) d) acc kvs)
     = map_of acc ++ map_of (rev kvs)"
  by (induction kvs arbitrary: acc) (auto simp add: update_conv')

lemma foldl_update_keys:
  "fst ` set (foldl (\<lambda>d kv. AList.update (fst kv) (snd kv) d) acc kvs)
     = fst ` set acc \<union> fst ` set kvs"
  by (induction kvs arbitrary: acc) (auto simp add: dom_update)

lemma foldl_update_distinct:
  "distinct (map fst acc) \<Longrightarrow>
     distinct (map fst (foldl (\<lambda>d kv. AList.update (fst kv) (snd kv) d) acc kvs))"
  by (induction kvs arbitrary: acc) (auto simp add: distinct_update)

lemma update_fresh: "k \<notin> fst ` set al \<Longrightarrow> AList.update k v al = al @ [(k, v)]"
  by (induction al) auto

lemma foldl_update_fresh:
  "distinct (map fst (acc @ kvs)) \<Longrightarrow>
     foldl (\<lambda>d kv. AList.update (fst kv) (snd kv) d) acc kvs = acc @ kvs"
proof (induction kvs arbitrary: acc)
  case Nil
  then show ?case by simp
next
  case (Cons kv kvs)
  from Cons.prems have fresh: "fst kv \<notin> fst ` set acc" by auto
  from Cons.prems have "distinct (map fst ((acc @ [kv]) @ kvs))" by simp
  from Cons.IH [OF this] show ?case
    by (simp add: update_fresh [OF fresh])
qed

lemma dict_map_of: "map_of (dict kvs) = map_of (rev kvs)"
  by (simp add: dict_def foldl_update_map_of)

lemma dict_keys: "set (map fst (dict kvs)) = set (map fst kvs)"
  using foldl_update_keys [of "[]" kvs] by (simp add: dict_def)

lemma dict_distinct: "distinct (map fst (dict kvs))"
  using foldl_update_distinct [of "[]" kvs] by (simp add: dict_def)

lemma dict_length: "length (dict kvs) = card (set (map fst kvs))"
  using distinct_card [OF dict_distinct, of kvs] by (simp add: dict_keys del: set_map)

lemma dict_distinct_id: "distinct (map fst kvs) \<Longrightarrow> dict kvs = kvs"
  using foldl_update_fresh [of "[]" kvs] by (simp add: dict_def)

subsection \<open>Sample runs that fail\<close>

lemma salesforce_failing_run:
  "salesforce_connection (db_failing (ExecQuery (PStr ''select 1 as x'')) e)
     (PStr ''select 1 as x'') [] =
   (Inl e,
    [(Connect, None), (Begin, None), (ExecDirective ''SET TRANSACTION READ ONLY'', None),
     (ExecQuery (PStr ''select 1 as x''), Some e), (Rollback, None), (Close, None)])"
  by (simp add: salesforce_connection_def salesforce_cursor_def run_simps
      db_failing_def read_only_directive_def superseded_by_def)

lemma direct_failing_run:
  "direct_connection (db_failing (ExecQuery (PStr ''select 1 as x'')) e) ''select 1 as x'' [] =
   (Inl e,
    [(Connect, None), (Begin, None), (ExecDirective ''SET TRANSACTION READ ONLY'', None),
     (ExecQuery (PStr ''select 1 as x''), Some e), (Rollback, None), (Close, None)])"
  by (simp add: direct_connection_def direct_cursor_def run_simps
      db_failing_def read_only_directive_def superseded_by_def)

lemma payload0_fields:
  "payload_get payload0 ''api_key'' = secret cfg0"
  "payload_get payload0 ''sqlquery'' = PStr ''select 1 as x''"
  by (simp_all add: payload0_def payload_get_def cfg0_def secret_def)

subsection \<open>The opening calls of a request\<close>




subsection \<open>A failed execution or fetch\<close>






subsection \<open>The routes\<close>




lemma cfg0_secret: "secret cfg0 = PStr ''k''"
  by (simp add: cfg0_def secret_def)


section \<open>The claims\<close>

text \<open>
  C1. The claim asks for the same rows, column names included, from the pooled and the
  direct endpoint. At \<^verbatim>\<open>select 1 as x\<close> with the valid key, on a database that
  returns the column \<open>x\<close> and the row \<open>(1)\<close>, the pooled endpoint answers with the
  dict of the row and the direct endpoint with the bare tuple.
\<close>

theorem pooled_and_direct_rows_differ:
  "fst (sqlquery_alchemy cfg0 False db_ok ''select 1 as x'' ''k'') =
     Resp 200 (PList [PDict [(''x'', PInt 1)]])
   \<and> fst (sqlquery_direct cfg0 False db_ok ''select 1 as x'' ''k'') =
     Resp 200 (PList [PTuple [PInt 1]])"
proof -
  have ok: "\<forall>op. fails db_ok op = None" by (simp add: db_ok_def)
  show ?thesis
    using alchemy_success [OF ok, of "''select 1 as x''"]
      direct_success [OF ok, of "''select 1 as x''"] is_select_example
    by (simp add: sqlquery_alchemy_def sqlquery_direct_def limiter_limit_def
        sqlquery_alchemy_fn_def sqlquery_direct_fn_def cfg0_def secret_def row_dicts_def
        dict_def db_ok_def)
qed

text \<open>
  The two endpoints give the same body only when the result has no row at all.
\<close>

lemma pooled_and_direct_agree_only_without_rows:
  assumes ok: "\<forall>op. fails d op = None" and sel: "is_select q" and auth: "PStr k = secret cfg"
  shows "fst (sqlquery_alchemy cfg False d q k) = fst (sqlquery_direct cfg False d q k)
           \<longleftrightarrow> rows_of d (PStr q) = []"
  using alchemy_success [OF ok, of q] direct_success [OF ok, of q] sel auth
  by (cases "rows_of d (PStr q)")
     (simp_all add: sqlquery_alchemy_def sqlquery_direct_def limiter_limit_def
        sqlquery_alchemy_fn_def sqlquery_direct_fn_def row_dicts_def)




text \<open>
  The handlers do not look into the text beyond its first word: a text of several
  statements is handed over as one, between the directive and the handler's own commit.
  What the statements of the text do to the transaction on the server is not part of
  these definitions.
\<close>

lemma text_sent_as_it_is:
  "snd (app cfg0 False db_ok (GetSqlqueryDirect ''commit; delete from accounts'' ''k'')) =
     [(Connect, None), (Begin, None), (ExecDirective ''SET TRANSACTION READ ONLY'', None),
      (ExecQuery (PStr ''commit; delete from accounts''), None), (Commit, None), (Close, None)]"
proof -
  have ok: "\<forall>op. fails db_ok op = None" by (simp add: db_ok_def)
  have ns: "\<not> is_select ''commit; delete from accounts''"
    by (simp add: is_select_def startswith_def lower_def strip_def py_isspace_def lower_char_def)
  show ?thesis
    using direct_success [OF ok, of "''commit; delete from accounts''"] ns
    by (simp add: app_def sqlquery_direct_def limiter_limit_def sqlquery_direct_fn_def
        cfg0_secret read_only_directive_def)
qed

text \<open>
  C3. When the request is authorised and admitted and no call on the database fails, the
  shape of the response is decided by the test of the handler alone: the response carries
  the rows exactly when the text, stripped of leading and trailing whitespace and
  lower-cased, begins with \<open>select\<close>; otherwise it is the fixed acknowledgement, which
  does not depend on the database.
\<close>

theorem response_shape_by_select_prefix:
  assumes "\<forall>op. fails d op = None"
  shows "(PStr k = secret cfg \<longrightarrow>
            fst (sqlquery_alchemy cfg False d q k) =
              Resp 200 (if (\<exists>rest. lower (strip q) = ''select'' @ rest)
                        then row_dicts (columns_of d (PStr q)) (rows_of d (PStr q))
                        else success_ack)
          \<and> fst (sqlquery_direct cfg False d q k) =
              Resp 200 (if (\<exists>rest. lower (strip q) = ''select'' @ rest)
                        then PList (map PTuple (rows_of d (PStr q)))
                        else success_ack))
       \<and> (payload_get p ''api_key'' = secret cfg \<and> payload_get p ''sqlquery'' = PStr q \<longrightarrow>
            fst (query_salesforce_data cfg d p) =
              Resp 200 (if (\<exists>rest. lower (strip q) = ''select'' @ rest)
                        then PDict [(''status'', PStr ''success''),
                               (''data'', row_dicts (columns_of d (PStr q)) (rows_of d (PStr q)))]
                        else PDict [(''status'', PStr ''success''),
                               (''message'', PStr ''Non-select executed'')]))"
  unfolding is_select_iff [symmetric]
  using alchemy_success [OF assms, of q] direct_success [OF assms, of q]
    salesforce_success [OF assms, of q]
  by (simp add: sqlquery_alchemy_def sqlquery_direct_def limiter_limit_def
      sqlquery_alchemy_fn_def sqlquery_direct_fn_def query_salesforce_data_def)

text \<open>
  The theorem at a padded, mixed-case select and at a \<open>with\<close> query.
\<close>

theorem response_shape_by_select_prefix_witness:
  "fst (sqlquery_alchemy cfg0 False db_ok ''  SeLeCt 1 as x '' ''k'') =
     Resp 200 (PList [PDict [(''x'', PInt 1)]])
   \<and> fst (sqlquery_direct cfg0 False db_ok ''with t as (select 1) select * from t'' ''k'') =
     Resp 200 (PDict [(''status'', PStr ''success''),
                      (''message'', PStr ''Query executed successfully'')])"
proof -
  have ok: "\<forall>op. fails db_ok op = None" by (simp add: db_ok_def)
  have k: "PStr ''k'' = secret cfg0" by (simp add: cfg0_def secret_def)
  show ?thesis
    using response_shape_by_select_prefix [OF ok, of "''k''" cfg0 "''  SeLeCt 1 as x ''"]
      response_shape_by_select_prefix [OF ok, of "''k''" cfg0 "''with t as (select 1) select * from t''"]
      k is_select_padded not_select_with
    unfolding is_select_iff [symmetric]
    by (simp add: row_dicts_def dict_def db_ok_def success_ack_def)
qed

text \<open>
  C4, as the code has it. On the pooled and the JSON-body endpoint, for a select-prefixed
  text served without failure and a result whose rows are as long as its column list, the
  response holds one dict per row, in the order of the rows. The keys of each dict are
  the column names, each once, so a dict has as many keys as there are distinct column
  names; a name maps to the value of its last occurrence in the row; when the column
  names are distinct the dict is the list of the pairs of column and value in result
  order.
\<close>

theorem rows_are_column_mappings:
  assumes ok: "\<forall>op. fails d op = None"
    and sel: "is_select q"
    and wf: "\<forall>row \<in> set (rows_of d (PStr q)). length row = length (columns_of d (PStr q))"
    and auth: "PStr k = secret cfg"
    and payload: "payload_get p ''api_key'' = secret cfg" "payload_get p ''sqlquery'' = PStr q"
  shows "\<exists>ds.
      fst (sqlquery_alchemy cfg False d q k) = Resp 200 (PList (map PDict ds))
    \<and> fst (query_salesforce_data cfg d p) =
        Resp 200 (PDict [(''status'', PStr ''success''), (''data'', PList (map PDict ds))])
    \<and> length ds = length (rows_of d (PStr q))
    \<and> (\<forall>i < length ds.
          set (map fst (ds ! i)) = set (columns_of d (PStr q))
        \<and> distinct (map fst (ds ! i))
        \<and> length (ds ! i) = card (set (columns_of d (PStr q)))
        \<and> map_of (ds ! i) = map_of (rev (zip (columns_of d (PStr q)) (rows_of d (PStr q) ! i)))
        \<and> (distinct (columns_of d (PStr q)) \<longrightarrow>
             ds ! i = zip (columns_of d (PStr q)) (rows_of d (PStr q) ! i)))"
proof -
  define cols where "cols = columns_of d (PStr q)"
  define rows where "rows = rows_of d (PStr q)"
  define ds where "ds = map (\<lambda>row. dict (zip cols row)) rows"
  have a: "fst (sqlquery_alchemy cfg False d q k) = Resp 200 (PList (map PDict ds))"
    using alchemy_success [OF ok, of q] sel auth
    by (simp add: sqlquery_alchemy_def limiter_limit_def sqlquery_alchemy_fn_def row_dicts_def
        ds_def cols_def rows_def comp_def)
  have s: "fst (query_salesforce_data cfg d p) =
        Resp 200 (PDict [(''status'', PStr ''success''), (''data'', PList (map PDict ds))])"
    using salesforce_success [OF ok, of q] sel payload
    by (simp add: query_salesforce_data_def row_dicts_def ds_def cols_def rows_def comp_def)
  have l: "length ds = length rows"
    by (simp add: ds_def)
  have r: "set (map fst (ds ! i)) = set cols \<and> distinct (map fst (ds ! i))
        \<and> length (ds ! i) = card (set cols)
        \<and> map_of (ds ! i) = map_of (rev (zip cols (rows ! i)))
        \<and> (distinct cols \<longrightarrow> ds ! i = zip cols (rows ! i))" if "i < length ds" for i
  proof -
    from that have i: "i < length rows" by (simp add: ds_def)
    then have "rows ! i \<in> set rows" by simp
    with wf have len: "length (rows ! i) = length cols" by (simp add: rows_def cols_def)
    have di: "ds ! i = dict (zip cols (rows ! i))" using i by (simp add: ds_def)
    have keys: "map fst (zip cols (rows ! i)) = cols" using len by simp
    show ?thesis
      unfolding di
      using dict_keys [of "zip cols (rows ! i)"] dict_distinct [of "zip cols (rows ! i)"]
        dict_length [of "zip cols (rows ! i)"] dict_map_of [of "zip cols (rows ! i)"]
        dict_distinct_id [of "zip cols (rows ! i)"]
      by (simp only: keys) simp
  qed
  show ?thesis
    using a s l r unfolding cols_def rows_def by blast
qed

text \<open>
  C4 as stated fails when two result columns carry one name, as in
  \<^verbatim>\<open>select 1 as x, 2 as x\<close>: the row has two columns and its dict one key.
\<close>

theorem duplicate_columns_counterexample:
  "fst (sqlquery_alchemy cfg0 False db_dup ''select 1 as x, 2 as x'' ''k'') =
     Resp 200 (PList [PDict [(''x'', PInt 2)]])
   \<and> columns_of db_dup (PStr ''select 1 as x, 2 as x'') = [''x'', ''x'']
   \<and> rows_of db_dup (PStr ''select 1 as x, 2 as x'') = [[PInt 1, PInt 2]]
   \<and> length [(''x'', PInt 2)] \<noteq> length (columns_of db_dup (PStr ''select 1 as x, 2 as x''))"
proof -
  have ok: "\<forall>op. fails db_dup op = None" by (simp add: db_dup_def)
  have sel: "is_select ''select 1 as x, 2 as x''" by code_simp
  show ?thesis
    using alchemy_success [OF ok, of "''select 1 as x, 2 as x''"] sel
    by (simp add: sqlquery_alchemy_def limiter_limit_def sqlquery_alchemy_fn_def cfg0_def
        secret_def row_dicts_def dict_def db_dup_def)
qed

text \<open>
  The amended statement at \<^verbatim>\<open>select 1 as x\<close>.
\<close>

theorem rows_are_column_mappings_witness:
  "\<exists>ds. fst (sqlquery_alchemy cfg0 False db_ok ''select 1 as x'' ''k'') = Resp 200 (PList (map PDict ds))
    \<and> fst (query_salesforce_data cfg0 db_ok payload0) =
        Resp 200 (PDict [(''status'', PStr ''success''), (''data'', PList (map PDict ds))])
    \<and> ds = [[(''x'', PInt 1)]]"
proof -
  have ok: "\<forall>op. fails db_ok op = None" by (simp add: db_ok_def)
  have wf: "\<forall>row \<in> set (rows_of db_ok (PStr ''select 1 as x'')).
              length row = length (columns_of db_ok (PStr ''select 1 as x''))"
    by (simp add: db_ok_def)
  have auth: "PStr ''k'' = secret cfg0" by (simp add: cfg0_def secret_def)
  have p1: "payload_get payload0 ''api_key'' = secret cfg0"
    by (simp add: payload0_def payload_get_def cfg0_def secret_def)
  have p2: "payload_get payload0 ''sqlquery'' = PStr ''select 1 as x''"
    by (simp add: payload0_def payload_get_def)
  have cols: "columns_of db_ok (PStr ''select 1 as x'') = [''x'']"
    and rows: "rows_of db_ok (PStr ''select 1 as x'') = [[PInt 1]]"
    by (simp_all add: db_ok_def)
  from rows_are_column_mappings [OF ok is_select_example wf auth p1 p2]
  obtain ds where ds: "fst (sqlquery_alchemy cfg0 False db_ok ''select 1 as x'' ''k'') = Resp 200 (PList (map PDict ds))"
    "fst (query_salesforce_data cfg0 db_ok payload0) =
        Resp 200 (PDict [(''status'', PStr ''success''), (''data'', PList (map PDict ds))])"
    "length ds = length (rows_of db_ok (PStr ''select 1 as x''))"
    "\<forall>i < length ds. distinct (columns_of db_ok (PStr ''select 1 as x'')) \<longrightarrow>
             ds ! i = zip (columns_of db_ok (PStr ''select 1 as x'')) (rows_of db_ok (PStr ''select 1 as x'') ! i)"
    by blast
  from ds(3) have len: "length ds = 1" by (simp add: rows)
  then obtain x where x: "ds = [x]" by (cases ds) auto
  with ds(4) have "x = [(''x'', PInt 1)]" by (simp add: cols rows)
  with x ds(1,2) show ?thesis by blast
qed

text \<open>
  C5, as the code has it. A request whose key differs from the secret never reaches the
  database: its trace is empty. On the JSON-body route it is answered 401. On the two
  decorated routes the limiter is asked before the handler compares the key, so the
  answer is 401 when the limiter admits the request and 429 when it does not.
\<close>

theorem wrong_key_rejected_without_connection:
  "(PStr k \<noteq> secret cfg \<longrightarrow>
      sqlquery_alchemy cfg exceeded d q k =
        (if exceeded then custom_rate_limit_exceeded_handler
         else Resp 401 (PDict [(''detail'', PStr ''Invalid API key'')]), [])
    \<and> sqlquery_direct cfg exceeded d q k =
        (if exceeded then custom_rate_limit_exceeded_handler
         else Resp 401 (PDict [(''detail'', PStr ''Invalid API key'')]), []))
   \<and> (payload_get p ''api_key'' \<noteq> secret cfg \<longrightarrow>
      query_salesforce_data cfg d p = (Resp 401 (PDict [(''detail'', PStr ''Invalid API key'')]), []))"
  by (simp add: sqlquery_alchemy_def sqlquery_direct_def limiter_limit_def
      sqlquery_alchemy_fn_def sqlquery_direct_fn_def query_salesforce_data_def HTTPException_def)

text \<open>
  C5 as stated fails on a decorated route once the quota is used up: the wrong key is
  answered 429, not 401.
\<close>

theorem limited_before_key_check_counterexample:
  "fst (sqlquery_alchemy cfg0 True db_ok ''select 1 as x'' ''wrong'') =
     Resp 429 (PDict [(''detail'',
       PStr ''Rate limit exceeded. Please try again later or contact your administrator.'')])
   \<and> PStr ''wrong'' \<noteq> secret cfg0"
  by (simp add: sqlquery_alchemy_def limiter_limit_def custom_rate_limit_exceeded_handler_def
      cfg0_def secret_def)

text \<open>
  The amended statement at a wrong key and a text the database would refuse.
\<close>

theorem wrong_key_rejected_without_connection_witness:
  "sqlquery_alchemy cfg0 False db_ok ''drop table t'' ''wrong'' =
     (Resp 401 (PDict [(''detail'', PStr ''Invalid API key'')]), [])
   \<and> sqlquery_direct cfg0 False db_ok ''drop table t'' ''wrong'' =
     (Resp 401 (PDict [(''detail'', PStr ''Invalid API key'')]), [])
   \<and> query_salesforce_data cfg0 db_ok [(''sqlquery'', PStr ''drop table t''), (''api_key'', PStr ''wrong'')] =
     (Resp 401 (PDict [(''detail'', PStr ''Invalid API key'')]), [])"
proof -
  have k: "PStr ''wrong'' \<noteq> secret cfg0" by (simp add: cfg0_def secret_def)
  have p: "payload_get [(''sqlquery'', PStr ''drop table t''), (''api_key'', PStr ''wrong'')] ''api_key''
             \<noteq> secret cfg0"
    by (simp add: payload_get_def cfg0_def secret_def)
  show ?thesis
    using wrong_key_rejected_without_connection
      [of "''wrong''" cfg0 False db_ok "''drop table t''"
          "[(''sqlquery'', PStr ''drop table t''), (''api_key'', PStr ''wrong'')]"] k p
    by simp
qed



text \<open>
  C7, as the code has it. An exception of class \<^verbatim>\<open>Exception\<close> that reaches the
  \<^verbatim>\<open>except\<close> clauses of the pooled or of the direct handler is answered 500 with
  \<^verbatim>\<open>Database error: \<close> before its text when it is of the driver's class
  (SQLAlchemyError, psycopg.Error) and with \<^verbatim>\<open>Unexpected error: \<close> before its text
  otherwise, and the two messages always differ. The JSON-body handler answers every
  such exception 500 with the bare text.
\<close>

theorem failures_classified:
  assumes "is_Exception e"
  shows "(PStr k = secret cfg \<and> alchemy_connection d q [] = (Inl e, tr) \<longrightarrow>
            sqlquery_alchemy cfg False d q k =
              (Resp 500 (PDict [(''detail'',
                 PStr ((if cls e = SQLAlchemyError then ''Database error: ''
                        else ''Unexpected error: '') @ str e))]), tr))
       \<and> (PStr k = secret cfg \<and> direct_connection d q [] = (Inl e, tr) \<longrightarrow>
            sqlquery_direct cfg False d q k =
              (Resp 500 (PDict [(''detail'',
                 PStr ((if cls e = PsycopgError then ''Database error: ''
                        else ''Unexpected error: '') @ str e))]), tr))
       \<and> (payload_get p ''api_key'' = secret cfg \<and>
          salesforce_connection d (payload_get p ''sqlquery'') [] = (Inl e, tr) \<longrightarrow>
            query_salesforce_data cfg d p = (Resp 500 (PDict [(''detail'', PStr (str e))]), tr))
       \<and> ''Database error: '' @ m \<noteq> ''Unexpected error: '' @ m'"
  using assms
  by (simp add: sqlquery_alchemy_def sqlquery_direct_def limiter_limit_def
      sqlquery_alchemy_fn_def sqlquery_direct_fn_def query_salesforce_data_def
      alchemy_except_def direct_except_def salesforce_except_def HTTPException_def)

text \<open>
  C7 as stated fails on the JSON-body endpoint: a failure of the driver and a failure of
  any other class with the same text get the same status and the same message.
\<close>

theorem salesforce_failures_not_told_apart_counterexample:
  "fst (query_salesforce_data cfg0
          (db_failing (ExecQuery (PStr ''select 1 as x'')) (Exc PsycopgError ''boom'')) payload0)
     = Resp 500 (PDict [(''detail'', PStr ''boom'')])
   \<and> fst (query_salesforce_data cfg0
          (db_failing (ExecQuery (PStr ''select 1 as x'')) (Exc OtherException ''boom'')) payload0)
     = Resp 500 (PDict [(''detail'', PStr ''boom'')])"
  using salesforce_failing_run [of "Exc PsycopgError ''boom''"]
    salesforce_failing_run [of "Exc OtherException ''boom''"] payload0_fields
  by (simp add: query_salesforce_data_def salesforce_except_def HTTPException_def
      is_Exception_def)

text \<open>
  The amended statement at a driver failure and at another failure on the direct
  endpoint.
\<close>

theorem failures_classified_witness:
  "sqlquery_direct cfg0 False
     (db_failing (ExecQuery (PStr ''select 1 as x'')) (Exc PsycopgError ''boom''))
     ''select 1 as x'' ''k'' =
     (Resp 500 (PDict [(''detail'', PStr ''Database error: boom'')]),
      [(Connect, None), (Begin, None), (ExecDirective ''SET TRANSACTION READ ONLY'', None),
       (ExecQuery (PStr ''select 1 as x''), Some (Exc PsycopgError ''boom'')),
       (Rollback, None), (Close, None)])
   \<and> sqlquery_direct cfg0 False
     (db_failing (ExecQuery (PStr ''select 1 as x'')) (Exc OtherException ''boom''))
     ''select 1 as x'' ''k'' =
     (Resp 500 (PDict [(''detail'', PStr ''Unexpected error: boom'')]),
      [(Connect, None), (Begin, None), (ExecDirective ''SET TRANSACTION READ ONLY'', None),
       (ExecQuery (PStr ''select 1 as x''), Some (Exc OtherException ''boom'')),
       (Rollback, None), (Close, None)])"
proof -
  have k: "PStr ''k'' = secret cfg0" by (simp add: cfg0_def secret_def)
  have e1: "is_Exception (Exc PsycopgError ''boom'')"
    and e2: "is_Exception (Exc OtherException ''boom'')"
    by (simp_all add: is_Exception_def)
  show ?thesis
    using failures_classified [OF e1, of "''k''" cfg0
        "db_failing (ExecQuery (PStr ''select 1 as x'')) (Exc PsycopgError ''boom'')"
        "''select 1 as x''"]
      failures_classified [OF e2, of "''k''" cfg0
        "db_failing (ExecQuery (PStr ''select 1 as x'')) (Exc OtherException ''boom'')"
        "''select 1 as x''"]
      direct_failing_run [of "Exc PsycopgError ''boom''"]
      direct_failing_run [of "Exc OtherException ''boom''"] k
    by simp
qed

text \<open>
  C8. A request that the limiter denies on a decorated route is answered 429 with the
  fixed message and never enters the handler. The JSON-body route does not ask the
  limiter: its answer is the same whatever the limiter would say, and its status is
  never 429.
\<close>

theorem limiter_answers_429_and_spares_json_route:
  "app cfg True d (GetSqlqueryAlchemy q k) =
     (Resp 429 (PDict [(''detail'',
        PStr ''Rate limit exceeded. Please try again later or contact your administrator.'')]), [])
   \<and> app cfg True d (GetSqlqueryDirect q k) =
     (Resp 429 (PDict [(''detail'',
        PStr ''Rate limit exceeded. Please try again later or contact your administrator.'')]), [])
   \<and> app cfg exceeded d (PostQuerySalesforceData p) = query_salesforce_data cfg d p
   \<and> status_of (fst (app cfg exceeded d (PostQuerySalesforceData p))) \<noteq> Some 429"
  by (auto simp add: app_def sqlquery_alchemy_def sqlquery_direct_def limiter_limit_def
      custom_rate_limit_exceeded_handler_def query_salesforce_data_def Let_def
      salesforce_except_def HTTPException_def split: prod.splits sum.splits)

text \<open>
  The theorem with the quota used up.
\<close>

theorem limiter_answers_429_and_spares_json_route_witness:
  "fst (app cfg0 True db_ok (GetSqlqueryDirect ''select 1 as x'' ''k'')) =
     Resp 429 (PDict [(''detail'',
        PStr ''Rate limit exceeded. Please try again later or contact your administrator.'')])
   \<and> app cfg0 True db_ok (PostQuerySalesforceData payload0) =
       app cfg0 False db_ok (PostQuerySalesforceData payload0)
   \<and> status_of (fst (app cfg0 True db_ok (PostQuerySalesforceData payload0))) \<noteq> Some 429"
proof -
  note denied = limiter_answers_429_and_spares_json_route
          [where cfg = cfg0 and d = db_ok and q = "''select 1 as x''" and k = "''k''"
             and exceeded = True and p = payload0]
  note admitted = limiter_answers_429_and_spares_json_route
          [where cfg = cfg0 and d = db_ok and q = "''select 1 as x''" and k = "''k''"
             and exceeded = False and p = payload0]
  from denied have
    "app cfg0 True db_ok (GetSqlqueryDirect ''select 1 as x'' ''k'') =
       (Resp 429 (PDict [(''detail'',
          PStr ''Rate limit exceeded. Please try again later or contact your administrator.'')]), [])"
    by blast
  then have a: "fst (app cfg0 True db_ok (GetSqlqueryDirect ''select 1 as x'' ''k'')) =
       Resp 429 (PDict [(''detail'',
          PStr ''Rate limit exceeded. Please try again later or contact your administrator.'')])"
    by (simp only: fst_conv)
  from denied have b1: "app cfg0 True db_ok (PostQuerySalesforceData payload0) =
       query_salesforce_data cfg0 db_ok payload0"
    by blast
  from admitted have b2: "app cfg0 False db_ok (PostQuerySalesforceData payload0) =
       query_salesforce_data cfg0 db_ok payload0"
    by blast
  from denied have c:
    "status_of (fst (app cfg0 True db_ok (PostQuerySalesforceData payload0))) \<noteq> Some 429"
    by blast
  from a b1 b2 c show ?thesis
    by (simp only: simp_thms)
qed

text \<open>
  C9. When \<^verbatim>\<open>set_session\<close> raises an exception of class \<^verbatim>\<open>Exception\<close>, the
  connect hook logs one warning and returns, and \<^verbatim>\<open>engine.connect()\<close> hands the
  connection out as if nothing had happened.
\<close>

theorem connect_hook_never_fails:
  assumes "is_Exception e"
  shows "set_session_readonly (Some e) =
           (Inr (), [Warning (''Failed to set SQLAlchemy session to readonly: '' @ str e)])
       \<and> (fails d Connect = None \<and> fails d SetSession = Some e \<longrightarrow>
            engine_connect d tr =
              (Inr (), tr @ [(Connect, None)] @
                 (if new_physical d then [(SetSession, Some e)] else [])))"
  using assms
  by (simp add: set_session_readonly_def engine_connect_def connect_hook_def prog_defs)

text \<open>
  The theorem at a driver whose connection has no \<^verbatim>\<open>set_session\<close>.
\<close>

theorem connect_hook_never_fails_witness:
  "set_session_readonly (Some (Exc OtherException ''no set_session'')) =
     (Inr (), [Warning ''Failed to set SQLAlchemy session to readonly: no set_session''])
   \<and> engine_connect (db_failing SetSession (Exc OtherException ''no set_session'')) [] =
     (Inr (), [(Connect, None), (SetSession, Some (Exc OtherException ''no set_session''))])"
proof -
  have e: "is_Exception (Exc OtherException ''no set_session'')"
    by (simp add: is_Exception_def)
  show ?thesis
    using connect_hook_never_fails [OF e,
        of "db_failing SetSession (Exc OtherException ''no set_session'')" "[]"]
    by (simp add: db_failing_def)
qed

text \<open>
  C10. When the module has loaded, so that the secret is a non-empty string, a payload
  without the field \<^verbatim>\<open>api_key\<close> is answered 401 and no call is made on the
  database.
\<close>

theorem missing_api_key_is_unauthorized:
  assumes "startup database_url rex_api_key = Inr cfg"
    and "map_of payload ''api_key'' = None"
  shows "query_salesforce_data cfg d payload =
           (Resp 401 (PDict [(''detail'', PStr ''Invalid API key'')]), [])"
  using assms
  by (auto simp add: startup_def py_not_def query_salesforce_data_def payload_get_def secret_def
      HTTPException_def split: if_splits option.splits)

text \<open>
  The check at start-up is what the claim rests on: were the secret unset, the missing
  field and the secret would both be None and the request would pass.
\<close>

lemma unset_secret_would_admit_missing_key:
  assumes "REX_API_KEY cfg = None" and "map_of payload ''api_key'' = None"
  shows "query_salesforce_data cfg d payload \<noteq>
           (Resp 401 (PDict [(''detail'', PStr ''Invalid API key'')]), [])"
  using assms
  by (auto simp add: query_salesforce_data_def payload_get_def secret_def
      salesforce_connection_def run_simps
      HTTPException_def split: if_splits option.splits prod.splits sum.splits)

text \<open>
  The theorem at a payload that only carries a query.
\<close>

theorem missing_api_key_is_unauthorized_witness:
  "startup (Some ''postgresql://u:p@h:5432/db'') (Some ''k'') = Inr cfg0
   \<and> map_of [(''sqlquery'', PStr ''select 1 as x'')] ''api_key'' = None
   \<and> query_salesforce_data cfg0 db_ok [(''sqlquery'', PStr ''select 1 as x'')] =
       (Resp 401 (PDict [(''detail'', PStr ''Invalid API key'')]), [])"
proof -
  have s: "startup (Some ''postgresql://u:p@h:5432/db'') (Some ''k'') = Inr cfg0"
    by (simp add: startup_def py_not_def cfg0_def)
  have m: "map_of [(''sqlquery'', PStr ''select 1 as x'')] ''api_key'' = None"
    by simp
  show ?thesis
    using missing_api_key_is_unauthorized [OF s m, of db_ok] s m by simp
qed

end
